theory Spec2Isabelle
  imports Complex_Main "HOL-Library.AList" "HOL-Library.Char_ord" "HOL-Library.List_Lexorder"
begin

section \<open>Order lifecycle and dispatch (order.service.ts, order.repository.ts)\<close>

subsection \<open>Rows of the relational store\<close>

text \<open>
  \<^verbatim>\<open>OrderStatus\<close> of \<^verbatim>\<open>types\<close> is a closed union of six string literals.
  Timestamps are ISO strings of millisecond precision in the source; they are modelled by
  the number of milliseconds they denote. JavaScript numbers that hold coordinates,
  prices and distances are idealised as reals (no rounding, no NaN).
\<close>

datatype OrderStatus = created | accepted | preparing | picked_up | delivered | cancelled

text \<open>
  \<^verbatim>\<open>OrderRow\<close>. The source's field \<^verbatim>\<open>id\<close> is \<open>order_id\<close> here, and the
  record fields of the other rows carry a prefix, since record fields share one name space.
\<close>

record OrderRow =
  order_id :: string
  customer_id :: string
  merchant_id :: string
  driver_id :: "string option"
  status :: OrderStatus
  total_price :: real
  pickup_lat :: real
  pickup_lng :: real
  dropoff_lat :: real
  dropoff_lng :: real
  order_notes :: "string option"
  created_at :: int
  updated_at :: int

text \<open>\<^verbatim>\<open>DriverStatusRow\<close>, a row of table \<^verbatim>\<open>driver_status\<close> (primary key \<^verbatim>\<open>driver_id\<close>).\<close>

record DriverStatusRow =
  ds_driver_id :: string
  is_available :: bool
  current_lat :: "real option"
  current_lng :: "real option"
  ds_updated_at :: int

text \<open>
  The D1 database, as far as dispatch and the lifecycle use it: the two tables, each a list
  of rows in storage order. A \<^verbatim>\<open>SELECT\<close> without \<^verbatim>\<open>ORDER BY\<close> is taken to return rows in
  that order.
\<close>

record DB =
  orders :: "OrderRow list"
  driver_status :: "DriverStatusRow list"

text \<open>The primary-key constraints of the two tables.\<close>

definition primary_keys :: "DB \<Rightarrow> bool" where
  "primary_keys db \<longleftrightarrow>
     distinct (map order_id (orders db)) \<and> distinct (map ds_driver_id (driver_status db))"

subsection \<open>OrderRepository\<close>

definition findById :: "DB \<Rightarrow> string \<Rightarrow> OrderRow option" where
  "findById db oid = find (\<lambda>r. order_id r = oid) (orders db)"

text \<open>
  \<^verbatim>\<open>updateStatus(id, status, driverId?)\<close>: one of two \<^verbatim>\<open>UPDATE ... WHERE id = ?\<close>
  statements, then \<^verbatim>\<open>findById\<close>. The clock reading \<^verbatim>\<open>new Date()\<close> is the argument
  \<open>now\<close>.
\<close>

definition updateStatus ::
  "DB \<Rightarrow> int \<Rightarrow> string \<Rightarrow> OrderStatus \<Rightarrow> string option \<Rightarrow> OrderRow option \<times> DB" where
  "updateStatus db now oid st driverId =
     (let db' =
        (case driverId of
           Some d \<Rightarrow>
             db\<lparr>orders := map (\<lambda>r. if order_id r = oid
                                    then r\<lparr>status := st, driver_id := Some d, updated_at := now\<rparr>
                                    else r) (orders db)\<rparr>
         | None \<Rightarrow>
             db\<lparr>orders := map (\<lambda>r. if order_id r = oid
                                    then r\<lparr>status := st, updated_at := now\<rparr>
                                    else r) (orders db)\<rparr>)
      in (findById db' oid, db'))"

text \<open>A row of the result of \<^verbatim>\<open>findAvailableDrivers\<close>.\<close>

record AvailableDriver =
  av_driver_id :: string
  av_current_lat :: real
  av_current_lng :: real

text \<open>The sub-select: drivers of orders in an active status.\<close>

definition active_driver_ids :: "DB \<Rightarrow> string list" where
  "active_driver_ids db =
     remdups (List.map_filter
       (\<lambda>r. if status r \<in> {accepted, preparing, picked_up} then driver_id r else None)
       (orders db))"

definition select_available :: "DB \<Rightarrow> DriverStatusRow \<Rightarrow> AvailableDriver option" where
  "select_available db ds =
     (case (current_lat ds, current_lng ds) of
        (Some clat, Some clng) \<Rightarrow>
          if is_available ds \<and> ds_driver_id ds \<notin> set (active_driver_ids db)
          then Some \<lparr>av_driver_id = ds_driver_id ds, av_current_lat = clat, av_current_lng = clng\<rparr>
          else None
      | _ \<Rightarrow> None)"

definition findAvailableDrivers :: "DB \<Rightarrow> AvailableDriver list" where
  "findAvailableDrivers db = List.map_filter (select_available db) (driver_status db)"

text \<open>
  \<^verbatim>\<open>upsertDriverStatus(driverId, isAvailable, lat?, lng?)\<close>:
  \<^verbatim>\<open>INSERT ... ON CONFLICT(driver_id) DO UPDATE\<close>; an absent coordinate is bound as NULL.
\<close>

fun upsert_row :: "DriverStatusRow \<Rightarrow> DriverStatusRow list \<Rightarrow> DriverStatusRow list" where
  "upsert_row new [] = [new]"
| "upsert_row new (r # rs) =
     (if ds_driver_id r = ds_driver_id new then new # rs else r # upsert_row new rs)"

definition upsertDriverStatus ::
  "DB \<Rightarrow> int \<Rightarrow> string \<Rightarrow> bool \<Rightarrow> real option \<Rightarrow> real option \<Rightarrow> DB" where
  "upsertDriverStatus db now driverId isAvailable lat lng =
     db\<lparr>driver_status :=
          upsert_row \<lparr>ds_driver_id = driverId, is_available = isAvailable,
                      current_lat = lat, current_lng = lng, ds_updated_at = now\<rparr>
                     (driver_status db)\<rparr>"

subsection \<open>OrderService: status updates\<close>

text \<open>
  The failures of the service are \<^verbatim>\<open>HTTPException\<close>s: 404 \<^verbatim>\<open>Order not found\<close>, 403
  \<^verbatim>\<open>Access denied\<close>, 400 \<^verbatim>\<open>Role ... cannot set status to ...\<close>, 400
  \<^verbatim>\<open>Cannot transition from ... to ...\<close> and 400 \<^verbatim>\<open>Order already dispatched or completed\<close>.
\<close>

datatype error = NotFound | AccessDenied | Forbidden | InvalidTransition | AlreadyDispatched

text \<open>
  \<^verbatim>\<open>ALLOWED_TRANSITIONS\<close>, a table from role names to the statuses the role may set. A
  role is one of the four names of \<^verbatim>\<open>UserRole\<close>; for any other string the lookup is taken
  to be undefined, which the source replaces by the empty list.
\<close>

definition ALLOWED_TRANSITIONS :: "string \<rightharpoonup> OrderStatus list" where
  "ALLOWED_TRANSITIONS =
     [''merchant'' \<mapsto> [accepted, preparing, cancelled],
      ''driver'' \<mapsto> [picked_up, delivered],
      ''customer'' \<mapsto> [cancelled],
      ''admin'' \<mapsto> [accepted, preparing, picked_up, delivered, cancelled]]"

text \<open>The table \<^verbatim>\<open>order\<close> local to \<^verbatim>\<open>isValidTransition\<close>.\<close>

fun order_rank :: "OrderStatus \<Rightarrow> int" where
  "order_rank created = 0"
| "order_rank accepted = 1"
| "order_rank preparing = 2"
| "order_rank picked_up = 3"
| "order_rank delivered = 4"
| "order_rank cancelled = -1"

definition isValidTransition :: "OrderStatus \<Rightarrow> OrderStatus \<Rightarrow> bool" where
  "isValidTransition current next =
     (if next = cancelled then current \<noteq> delivered \<and> current \<noteq> cancelled
      else order_rank next > order_rank current)"

definition isParty :: "OrderRow \<Rightarrow> string \<Rightarrow> string \<Rightarrow> bool" where
  "isParty order requestingUserId role \<longleftrightarrow>
     role = ''admin'' \<or> customer_id order = requestingUserId
     \<or> merchant_id order = requestingUserId \<or> driver_id order = Some requestingUserId"

text \<open>
  \<^verbatim>\<open>updateOrderStatus(orderId, input, requestingUserId, role)\<close>. The result pairs what the
  call returns or throws with the database it leaves; \<^verbatim>\<open>updated!\<close> is the row read back.
\<close>

definition updateOrderStatus ::
  "DB \<Rightarrow> int \<Rightarrow> string \<Rightarrow> OrderStatus \<Rightarrow> string \<Rightarrow> string \<Rightarrow> (error + OrderRow option) \<times> DB" where
  "updateOrderStatus db now orderId input_status requestingUserId role =
     (case findById db orderId of
        None \<Rightarrow> (Inl NotFound, db)
      | Some order \<Rightarrow>
          if \<not> isParty order requestingUserId role then (Inl AccessDenied, db)
          else
            let allowed = (case ALLOWED_TRANSITIONS role of Some l \<Rightarrow> l | None \<Rightarrow> [])
            in if input_status \<notin> set allowed then (Inl Forbidden, db)
               else if \<not> isValidTransition (status order) input_status
                    then (Inl InvalidTransition, db)
                    else (case updateStatus db now orderId input_status None of
                            (updated, db') \<Rightarrow> (Inr updated, db')))"

text \<open>\<^verbatim>\<open>UpdateOrderStatusSchema\<close>: the request body's status is one of five literals.\<close>

definition UpdateOrderStatusSchema :: "OrderStatus \<Rightarrow> bool" where
  "UpdateOrderStatusSchema st \<longleftrightarrow> st \<in> {accepted, preparing, picked_up, delivered, cancelled}"

subsection \<open>Great-circle distance (utils)\<close>

text \<open>
  \<^verbatim>\<open>haversineDistance\<close> over the reals. \<open>atan2\<close> is \<^verbatim>\<open>Math.atan2\<close>. Where the source
  computes in double precision, the model is exact; none of the results below depends on a
  value of the distance, only on distances being comparable.
\<close>

definition toRad :: "real \<Rightarrow> real" where
  "toRad deg = (deg * pi) / 180"

definition atan2 :: "real \<Rightarrow> real \<Rightarrow> real" where
  "atan2 y x =
     (if x > 0 then arctan (y / x)
      else if x < 0 then (if y \<ge> 0 then arctan (y / x) + pi else arctan (y / x) - pi)
      else if y > 0 then pi / 2 else if y < 0 then - pi / 2 else 0)"

definition haversineDistance :: "real \<Rightarrow> real \<Rightarrow> real \<Rightarrow> real \<Rightarrow> real" where
  "haversineDistance lat1 lng1 lat2 lng2 =
     (let R = 6371;
          dLat = toRad (lat2 - lat1);
          dLng = toRad (lng2 - lng1);
          a = (sin (dLat / 2))\<^sup>2 + cos (toRad lat1) * cos (toRad lat2) * (sin (dLng / 2))\<^sup>2
      in R * 2 * atan2 (sqrt a) (sqrt (1 - a)))"

subsection \<open>OrderService: creation and dispatch\<close>

record OrderItem =
  item_name :: string
  quantity :: int
  unit_price :: real

record CreateOrderInput =
  in_merchant_id :: string
  in_pickup_lat :: real
  in_pickup_lng :: real
  in_dropoff_lat :: real
  in_dropoff_lng :: real
  in_items :: "OrderItem list"
  in_notes :: "string option"

text \<open>
  \<^verbatim>\<open>OrderRepository.create\<close>: the fresh identifier of \<^verbatim>\<open>generateId()\<close> and the clock are
  arguments; the identifier is not among the stored ones, or the insertion would fail. Table
  \<^verbatim>\<open>order_items\<close> plays no part in dispatch and is left out.
\<close>

definition create ::
  "DB \<Rightarrow> int \<Rightarrow> string \<Rightarrow> string \<Rightarrow> CreateOrderInput \<Rightarrow> real \<Rightarrow> OrderRow option \<times> DB" where
  "create db now orderId customerId inp price =
     (let row = \<lparr>order_id = orderId, customer_id = customerId, merchant_id = in_merchant_id inp,
                  driver_id = None, status = created, total_price = price,
                  pickup_lat = in_pickup_lat inp, pickup_lng = in_pickup_lng inp,
                  dropoff_lat = in_dropoff_lat inp, dropoff_lng = in_dropoff_lng inp,
                  order_notes = in_notes inp, created_at = now, updated_at = now\<rparr>;
          db' = db\<lparr>orders := orders db @ [row]\<rparr>
      in (findById db' orderId, db'))"

text \<open>
  \<^verbatim>\<open>createOrder\<close> up to the point where it starts the background dispatch: the row it
  returns is the argument of the later, unawaited \<^verbatim>\<open>dispatchOrder(order)\<close>.
\<close>

definition createOrder ::
  "DB \<Rightarrow> int \<Rightarrow> string \<Rightarrow> string \<Rightarrow> CreateOrderInput \<Rightarrow> OrderRow option \<times> DB" where
  "createOrder db now orderId customerId inp =
     (let price = foldl (\<lambda>sum item. sum + real_of_int (quantity item) * unit_price item)
                              0 (in_items inp)
      in create db now orderId customerId inp price)"

text \<open>
  The local \<^verbatim>\<open>sorted\<close> of \<^verbatim>\<open>dispatchOrder\<close>: each available driver paired with its
  distance from the pickup point (the object \<^verbatim>\<open>{...d, distance}\<close>), sorted by the
  comparator \<^verbatim>\<open>a.distance - b.distance\<close>. \<^verbatim>\<open>Array.prototype.sort\<close> is stable, as
  \<^const>\<open>sort_key\<close> is.
\<close>

definition rank_drivers :: "OrderRow \<Rightarrow> AvailableDriver list \<Rightarrow> (AvailableDriver \<times> real) list" where
  "rank_drivers order availableDrivers =
     sort_key snd
       (map (\<lambda>d. (d, haversineDistance (pickup_lat order) (pickup_lng order)
                                       (av_current_lat d) (av_current_lng d)))
            availableDrivers)"

text \<open>
  \<^verbatim>\<open>dispatchOrder(order)\<close> returns nothing; the model returns the database it leaves. The
  branch for an empty ranking cannot be taken, the list of available drivers being
  non-empty there.
\<close>

definition dispatchOrder :: "DB \<Rightarrow> int \<Rightarrow> OrderRow \<Rightarrow> DB" where
  "dispatchOrder db now order =
     (let availableDrivers = findAvailableDrivers db
      in if length availableDrivers = 0 then db
         else (case rank_drivers order availableDrivers of
                 [] \<Rightarrow> db
               | nearest # _ \<Rightarrow>
                   snd (updateStatus db now (order_id order) accepted
                          (Some (av_driver_id (fst nearest))))))"

record DispatchResult =
  assigned :: bool
  res_driver_id :: "string option"

definition triggerDispatch :: "DB \<Rightarrow> int \<Rightarrow> string \<Rightarrow> (error + DispatchResult) \<times> DB" where
  "triggerDispatch db now orderId =
     (case findById db orderId of
        None \<Rightarrow> (Inl NotFound, db)
      | Some order \<Rightarrow>
          if status order \<noteq> created then (Inl AlreadyDispatched, db)
          else
            let db' = dispatchOrder db now order;
                updated = findById db' orderId
            in (Inr \<lparr>assigned = (case updated of None \<Rightarrow> False | Some u \<Rightarrow> driver_id u \<noteq> None),
                      res_driver_id = (case updated of None \<Rightarrow> None | Some u \<Rightarrow> driver_id u)\<rparr>,
                db'))"

section \<open>The location store (DriverTracker.ts)\<close>

record DriverLocation =
  loc_driver_id :: string
  loc_lat :: real
  loc_lng :: real
  loc_updated_at :: int

text \<open>
  \<^verbatim>\<open>LocationStore\<close> is a plain object indexed by driver id. \<^verbatim>\<open>Object.entries\<close> and
  \<^verbatim>\<open>Object.values\<close> enumerate string keys in insertion order, so the object is an
  association list: an assignment to a present key replaces the value in place, to an absent
  key appends (\<^const>\<open>AList.update\<close>), and \<^verbatim>\<open>delete\<close> removes (\<^const>\<open>AList.delete\<close>).
  Driver ids are UUIDs, never array indices, which JavaScript would enumerate first.
\<close>

type_synonym LocationStore = "(string \<times> DriverLocation) list"

text \<open>
  The durable object: the in-memory cache, the flag \<^verbatim>\<open>loaded\<close>, and the value stored
  under the key \<^verbatim>\<open>locations\<close> of \<^verbatim>\<open>state.storage\<close>. Storage reads and writes succeed.
\<close>

record DriverTracker =
  locations :: LocationStore
  loaded :: bool
  storage :: "LocationStore option"

text \<open>What a JavaScript object can hold: one value for each key.\<close>

definition store_ok :: "LocationStore \<Rightarrow> bool" where
  "store_ok locs \<longleftrightarrow> distinct (map fst locs)"

definition ensureLoaded :: "DriverTracker \<Rightarrow> DriverTracker" where
  "ensureLoaded s =
     (if loaded s then s
      else s\<lparr>locations := (case storage s of None \<Rightarrow> [] | Some stored \<Rightarrow> stored), loaded := True\<rparr>)"

definition persist :: "DriverTracker \<Rightarrow> DriverTracker" where
  "persist s = s\<lparr>storage := Some (locations s)\<rparr>"

text \<open>
  A parsed JSON request body. A driver id or coordinate that is missing or null is \<open>None\<close>
  (the source tests them alike); a radius that is missing is \<open>None\<close>.
\<close>

record Body =
  body_driver_id :: "string option"
  body_lat :: "real option"
  body_lng :: "real option"
  body_radius_km :: "real option"

record Request =
  req_method :: string
  req_segments :: "string list"
  req_body :: Body

text \<open>\<^verbatim>\<open>jsonResponse(body, status)\<close>: the status code and the JSON payload.\<close>

datatype Payload =
  ErrorBody string
  | SuccessOnly
  | SuccessEntry DriverLocation
  | SuccessNearby "(DriverLocation \<times> real) list"

datatype Response = Response nat Payload

definition handleUpdateLocation :: "DriverTracker \<Rightarrow> int \<Rightarrow> Body \<Rightarrow> Response \<times> DriverTracker" where
  "handleUpdateLocation s now b =
     (case (body_driver_id b, body_lat b, body_lng b) of
        (Some did, Some la, Some lg) \<Rightarrow>
          if did = [] then (Response 400 (ErrorBody ''Missing fields''), s)
          else
            let entry = \<lparr>loc_driver_id = did, loc_lat = la, loc_lng = lg, loc_updated_at = now\<rparr>;
                s' = persist (s\<lparr>locations := AList.update did entry (locations s)\<rparr>)
            in (Response 200 (SuccessEntry entry), s')
      | _ \<Rightarrow> (Response 400 (ErrorBody ''Missing fields''), s))"

definition handleGetLocation :: "DriverTracker \<Rightarrow> string \<Rightarrow> Response" where
  "handleGetLocation s driverId =
     (case map_of (locations s) driverId of
        None \<Rightarrow> Response 404 (ErrorBody ''Driver not found'')
      | Some loc \<Rightarrow> Response 200 (SuccessEntry loc))"

definition handleRemoveLocation :: "DriverTracker \<Rightarrow> string \<Rightarrow> Response \<times> DriverTracker" where
  "handleRemoveLocation s driverId =
     (case map_of (locations s) driverId of
        None \<Rightarrow> (Response 404 (ErrorBody ''Driver not found''), s)
      | Some _ \<Rightarrow>
          (Response 200 SuccessOnly, persist (s\<lparr>locations := AList.delete driverId (locations s)\<rparr>)))"

text \<open>
  The pruning loop of \<^verbatim>\<open>handleNearby\<close>: it walks the entries as they were when the loop
  began and deletes the stale ones from the live object, recording whether it deleted any.
\<close>

fun prune_loop :: "int \<Rightarrow> (string \<times> DriverLocation) list \<Rightarrow> LocationStore \<times> bool \<Rightarrow> LocationStore \<times> bool" where
  "prune_loop staleThreshold [] acc = acc"
| "prune_loop staleThreshold ((k, loc) # entries) (locs, pruned) =
     (if loc_updated_at loc < staleThreshold
      then prune_loop staleThreshold entries (AList.delete k locs, True)
      else prune_loop staleThreshold entries (locs, pruned))"

text \<open>
  \<^verbatim>\<open>handleNearby\<close>. An entry of the answer is the location paired with its distance (the
  object \<^verbatim>\<open>{...loc, distance_km}\<close>).
\<close>

definition handleNearby :: "DriverTracker \<Rightarrow> int \<Rightarrow> Body \<Rightarrow> Response \<times> DriverTracker" where
  "handleNearby s now b =
     (case (body_lat b, body_lng b) of
        (Some qlat, Some qlng) \<Rightarrow>
          let radius_km = (case body_radius_km b of None \<Rightarrow> 10 | Some r \<Rightarrow> r);
              staleThreshold = now - 5 * 60 * 1000;
              (locs, pruned) = prune_loop staleThreshold (locations s) (locations s, False);
              s1 = s\<lparr>locations := locs\<rparr>;
              s2 = (if pruned then persist s1 else s1);
              nearby = sort_key snd
                         (filter (\<lambda>e. snd e \<le> radius_km)
                            (map (\<lambda>loc. (loc, haversineDistance qlat qlng (loc_lat loc) (loc_lng loc)))
                                 (map snd (locations s2))))
          in (Response 200 (SuccessNearby nearby), s2)
      | _ \<Rightarrow> (Response 400 (ErrorBody ''lat and lng required''), s))"

text \<open>
  The router. \<open>segment0\<close> and \<open>segment1\<close> are \<^verbatim>\<open>segments[0]\<close> and \<^verbatim>\<open>segments[1]\<close>, with
  the empty string for a segment that is not there: the source only tests the first for
  equality and the second for truth. No handler of the model throws, so the router's
  \<^verbatim>\<open>catch\<close> branch (status 500) is not reached.
\<close>

definition segment0 :: "string list \<Rightarrow> string" where
  "segment0 segs = (case segs of [] \<Rightarrow> [] | x # _ \<Rightarrow> x)"

definition segment1 :: "string list \<Rightarrow> string" where
  "segment1 segs = (case segs of _ # y # _ \<Rightarrow> y | _ \<Rightarrow> [])"

definition fetch :: "DriverTracker \<Rightarrow> int \<Rightarrow> Request \<Rightarrow> Response \<times> DriverTracker" where
  "fetch s0 now request =
     (let s = ensureLoaded s0;
          segs = req_segments request
      in if req_method request = ''PUT'' \<and> segment0 segs = ''location''
         then handleUpdateLocation s now (req_body request)
         else if req_method request = ''GET'' \<and> segment0 segs = ''location'' \<and> segment1 segs \<noteq> []
         then (handleGetLocation s (segment1 segs), s)
         else if req_method request = ''DELETE'' \<and> segment0 segs = ''location'' \<and> segment1 segs \<noteq> []
         then handleRemoveLocation s (segment1 segs)
         else if req_method request = ''POST'' \<and> segment0 segs = ''nearby''
         then handleNearby s now (req_body request)
         else (Response 404 (ErrorBody ''Not found''), s))"

definition no_body :: Body where
  "no_body = \<lparr>body_driver_id = None, body_lat = None, body_lng = None, body_radius_km = None\<rparr>"

text \<open>The three requests the worker side sends, and the point lookup.\<close>

definition put_location :: "string \<Rightarrow> real \<Rightarrow> real \<Rightarrow> Request" where
  "put_location driverId la lg =
     \<lparr>req_method = ''PUT'', req_segments = [''location''],
      req_body = \<lparr>body_driver_id = Some driverId, body_lat = Some la, body_lng = Some lg,
                  body_radius_km = None\<rparr>\<rparr>"

definition get_location :: "string \<Rightarrow> Request" where
  "get_location driverId =
     \<lparr>req_method = ''GET'', req_segments = [''location'', driverId], req_body = no_body\<rparr>"

definition delete_location :: "string \<Rightarrow> Request" where
  "delete_location driverId =
     \<lparr>req_method = ''DELETE'', req_segments = [''location'', driverId], req_body = no_body\<rparr>"

definition post_nearby :: "real \<Rightarrow> real \<Rightarrow> real \<Rightarrow> Request" where
  "post_nearby qlat qlng radius_km =
     \<lparr>req_method = ''POST'', req_segments = [''nearby''],
      req_body = \<lparr>body_driver_id = None, body_lat = Some qlat, body_lng = Some qlng,
                  body_radius_km = Some radius_km\<rparr>\<rparr>"

section \<open>The driver service (driver.service.ts)\<close>

text \<open>The two stores the service writes: the D1 database and the tracker object.\<close>

record System =
  sys_db :: DB
  sys_tracker :: DriverTracker

datatype service_error = DOError string

definition response_ok :: "Response \<Rightarrow> bool" where
  "response_ok r = (case r of Response code _ \<Rightarrow> 200 \<le> code \<and> code \<le> 299)"

definition error_text :: "Response \<Rightarrow> string" where
  "error_text r = (case r of Response _ (ErrorBody e) \<Rightarrow> e | _ \<Rightarrow> [])"

definition updateLocation ::
  "System \<Rightarrow> int \<Rightarrow> string \<Rightarrow> real \<Rightarrow> real \<Rightarrow> (service_error + unit) \<times> System" where
  "updateLocation sys now driverId la lg =
     (case fetch (sys_tracker sys) now (put_location driverId la lg) of
        (res, tr) \<Rightarrow>
          if \<not> response_ok res
          then (Inl (DOError (''DO error: '' @ error_text res)), sys\<lparr>sys_tracker := tr\<rparr>)
          else (Inr (),
                \<lparr>sys_db = upsertDriverStatus (sys_db sys) now driverId True (Some la) (Some lg),
                 sys_tracker = tr\<rparr>))"

definition getNearbyDrivers ::
  "System \<Rightarrow> int \<Rightarrow> real \<Rightarrow> real \<Rightarrow> real \<Rightarrow> (service_error + (DriverLocation \<times> real) list) \<times> System" where
  "getNearbyDrivers sys now qlat qlng radius_km =
     (case fetch (sys_tracker sys) now (post_nearby qlat qlng radius_km) of
        (res, tr) \<Rightarrow>
          if \<not> response_ok res
          then (Inl (DOError ''Failed to query nearby drivers''), sys\<lparr>sys_tracker := tr\<rparr>)
          else (Inr (case res of Response _ (SuccessNearby ds) \<Rightarrow> ds | _ \<Rightarrow> []),
                sys\<lparr>sys_tracker := tr\<rparr>))"

definition goOffline :: "System \<Rightarrow> int \<Rightarrow> string \<Rightarrow> System" where
  "goOffline sys now driverId =
     (case fetch (sys_tracker sys) now (delete_location driverId) of
        (_, tr) \<Rightarrow>
          \<lparr>sys_db = upsertDriverStatus (sys_db sys) now driverId False None None,
           sys_tracker = tr\<rparr>)"

definition setAvailability :: "System \<Rightarrow> int \<Rightarrow> string \<Rightarrow> bool \<Rightarrow> System" where
  "setAvailability sys now driverId available =
     sys\<lparr>sys_db := upsertDriverStatus (sys_db sys) now driverId available None None\<rparr>"

section \<open>The specification's tables\<close>

text \<open>\<^verbatim>\<open>UserRole\<close> of \<^verbatim>\<open>types\<close>: the four roles an authenticated user can have.\<close>

definition UserRole :: "string list" where
  "UserRole = [''customer'', ''driver'', ''merchant'', ''admin'']"

text \<open>
  The statuses each role may set, in the specification's words: the merchant accepted,
  preparing and cancelled; the driver picked\_up and delivered; the customer cancelled; the
  administrator any.
\<close>

definition role_permits_spec :: "string \<Rightarrow> OrderStatus set" where
  "role_permits_spec role =
     (if role = ''merchant'' then {accepted, preparing, cancelled}
      else if role = ''driver'' then {picked_up, delivered}
      else if role = ''customer'' then {cancelled}
      else if role = ''admin'' then UNIV
      else {})"

text \<open>
  The ordering guard in the specification's words: the ranks created 0, accepted 1,
  preparing 2, picked\_up 3, delivered 4 must strictly increase for a target other than
  \<open>cancelled\<close>, and cancellation is legal from any state except \<open>delivered\<close> and
  \<open>cancelled\<close>. \<open>cancelled\<close> has no rank: nothing but the refused cancellation leaves it.
\<close>

definition spec_rank :: "OrderStatus \<rightharpoonup> nat" where
  "spec_rank = [created \<mapsto> 0, accepted \<mapsto> 1, preparing \<mapsto> 2, picked_up \<mapsto> 3, delivered \<mapsto> 4]"

definition ordering_guard_spec :: "OrderStatus \<Rightarrow> OrderStatus \<Rightarrow> bool" where
  "ordering_guard_spec current target =
     (if target = cancelled then current \<noteq> delivered \<and> current \<noteq> cancelled
      else (case (spec_rank current, spec_rank target) of
              (Some a, Some b) \<Rightarrow> a < b
            | _ \<Rightarrow> False))"

section \<open>Example states\<close>

text \<open>
  An empty database; the order of the specification's pricing scenario, placed by customer
  \<open>c1\<close> with merchant \<open>m1\<close>; and the database after its creation.
\<close>

definition db_empty :: DB where
  "db_empty = \<lparr>orders = [], driver_status = []\<rparr>"

definition input_o1 :: CreateOrderInput where
  "input_o1 =
     \<lparr>in_merchant_id = ''m1'', in_pickup_lat = 1, in_pickup_lng = 1,
      in_dropoff_lat = 2, in_dropoff_lng = 2,
      in_items = [\<lparr>item_name = ''a'', quantity = 2, unit_price = 5\<rparr>,
                  \<lparr>item_name = ''b'', quantity = 1, unit_price = 3\<rparr>],
      in_notes = None\<rparr>"

definition order_o1 :: OrderRow where
  "order_o1 =
     \<lparr>order_id = ''o1'', customer_id = ''c1'', merchant_id = ''m1'', driver_id = None,
      status = created, total_price = 13, pickup_lat = 1, pickup_lng = 1,
      dropoff_lat = 2, dropoff_lng = 2, order_notes = None, created_at = 0, updated_at = 0\<rparr>"

definition db_created :: DB where
  "db_created = snd (createOrder db_empty 0 ''o1'' ''c1'' input_o1)"

text \<open>The customer cancels the order at time 5.\<close>

definition db_cancelled :: DB where
  "db_cancelled = snd (updateOrderStatus db_created 5 ''o1'' cancelled ''c1'' ''customer'')"

text \<open>An administrator drives a second copy of the order to \<open>delivered\<close>.\<close>

definition db_delivered :: DB where
  "db_delivered = snd (updateOrderStatus db_created 5 ''o1'' delivered ''a1'' ''admin'')"

text \<open>
  A driver \<open>d1\<close> has reported the position (1, 1); the order is created, and the customer
  cancels it at time 5, while the dispatch started by its creation has not yet written.
\<close>

definition db_d1 :: DB where
  "db_d1 = upsertDriverStatus db_empty 0 ''d1'' True (Some 1) (Some 1)"

definition db_d1_cancelled :: DB where
  "db_d1_cancelled =
     snd (updateOrderStatus (snd (createOrder db_d1 0 ''o1'' ''c1'' input_o1))
            5 ''o1'' cancelled ''c1'' ''customer'')"

text \<open>
  The order was created while no driver was available; then drivers \<open>d1\<close> and \<open>d2\<close>
  report the same position. Two dispatch attempts have read the order, still \<open>created\<close>;
  their calls of \<^verbatim>\<open>dispatchOrder\<close> run one after the other, at times 10 and 11.
\<close>

definition db_two_drivers :: DB where
  "db_two_drivers =
     upsertDriverStatus (upsertDriverStatus db_created 1 ''d1'' True (Some 1) (Some 1))
       2 ''d2'' True (Some 1) (Some 1)"

definition db_first_dispatch :: DB where
  "db_first_dispatch = dispatchOrder db_two_drivers 10 order_o1"

definition db_second_dispatch :: DB where
  "db_second_dispatch = dispatchOrder db_first_dispatch 11 order_o1"

text \<open>The tracker as its constructor leaves it, and a system whose database knows \<open>d1\<close>.\<close>

definition tracker_new :: DriverTracker where
  "tracker_new = \<lparr>locations = [], loaded = False, storage = None\<rparr>"

definition sys_d1 :: System where
  "sys_d1 = \<lparr>sys_db = db_d1, sys_tracker = tracker_new\<rparr>"

section \<open>Invariants of the stored rows\<close>

text \<open>An order that is still \<open>created\<close> has no driver: rows are inserted so, and every write
  that sets a driver also leaves \<open>created\<close>.\<close>

definition created_unassigned :: "DB \<Rightarrow> bool" where
  "created_unassigned db \<longleftrightarrow>
     (\<forall>r \<in> set (orders db). status r = created \<longrightarrow> driver_id r = None)"

section \<open>Notions used in the statements\<close>

text \<open>An entry survives the pruning of \<^verbatim>\<open>handleNearby\<close> when its timestamp is not below the
  threshold.\<close>

definition fresh_entry :: "int \<Rightarrow> string \<times> DriverLocation \<Rightarrow> bool" where
  "fresh_entry staleThreshold e \<longleftrightarrow> \<not> loc_updated_at (snd e) < staleThreshold"

text \<open>
  The order the specification asks of the answer of \<^verbatim>\<open>Nearby\<close>: ascending by distance,
  and by driver id among entries at the same distance. Strings compare as in JavaScript on
  the ASCII ids used here.
\<close>

definition nearby_order_spec :: "(DriverLocation \<times> real) list \<Rightarrow> bool" where
  "nearby_order_spec es \<longleftrightarrow>
     sorted_wrt (\<lambda>a b. snd a < snd b \<or> (snd a = snd b \<and> loc_driver_id (fst a) \<le> loc_driver_id (fst b))) es"

text \<open>
  An execution of the tracker: requests, each with the clock reading at which it is served,
  handled one after the other.
\<close>

fun run :: "DriverTracker \<Rightarrow> (int \<times> Request) list \<Rightarrow> DriverTracker" where
  "run s [] = s"
| "run s ((t, request) # rest) = run (snd (fetch s t request)) rest"


section \<open>Example states of the tracker\<close>

text \<open>Driver \<open>d2\<close> reports the position (1, 1) at time 0 and driver \<open>d1\<close> the same position
  at time 1.\<close>

definition entry_d1 :: DriverLocation where
  "entry_d1 = \<lparr>loc_driver_id = ''d1'', loc_lat = 1, loc_lng = 1, loc_updated_at = 1\<rparr>"

definition entry_d2 :: DriverLocation where
  "entry_d2 = \<lparr>loc_driver_id = ''d2'', loc_lat = 1, loc_lng = 1, loc_updated_at = 0\<rparr>"

definition tracker_two :: DriverTracker where
  "tracker_two = snd (fetch (snd (fetch tracker_new 0 (put_location ''d2'' 1 1))) 1 (put_location ''d1'' 1 1))"

text \<open>After that, \<open>d2\<close> goes offline at time 2 and reports again at time 3.\<close>

definition tracker_reinserted :: DriverTracker where
  "tracker_reinserted =
     snd (fetch (snd (fetch tracker_two 2 (delete_location ''d2''))) 3 (put_location ''d2'' 1 1))"

text \<open>Only \<open>d1\<close> has reported, at time 1.\<close>

definition tracker_d1 :: DriverTracker where
  "tracker_d1 = snd (fetch tracker_new 1 (put_location ''d1'' 1 1))"

text \<open>
  The order exists and no driver is known; \<open>d1\<close> reports its position at time 1 through
  the driver service; at time 400000, more than five minutes later, somebody asks for the
  drivers near (1, 1).
\<close>

definition sys_new :: System where
  "sys_new = \<lparr>sys_db = db_created, sys_tracker = tracker_new\<rparr>"

definition sys_reported :: System where
  "sys_reported = snd (updateLocation sys_new 1 ''d1'' 1 1)"

definition sys_evicted :: System where
  "sys_evicted = snd (getNearbyDrivers sys_reported 400000 1 1 10)"

text \<open>Driver \<open>d1\<close>, known with a position, toggles availability at time 5.\<close>

definition db_toggled :: DB where
  "db_toggled = sys_db (setAvailability sys_d1 5 ''d1'' True)"

section \<open>Supporting lemmas\<close>

subsection \<open>The orders table\<close>

lemma find_map_update:
  assumes "find (\<lambda>r. order_id r = oid) rs = Some order"
    and "\<And>r. order_id (g r) = order_id r"
  shows "find (\<lambda>r. order_id r = oid) (map (\<lambda>r. if order_id r = oid then g r else r) rs)
          = Some (g order)"
  using assms by (induction rs) (auto split: if_splits)

lemma updateStatus_result:
  "findById db oid = Some order \<Longrightarrow>
   fst (updateStatus db now oid st None) = Some (order\<lparr>status := st, updated_at := now\<rparr>)"
  unfolding updateStatus_def findById_def Let_def
  by (simp add: find_map_update [where g = "\<lambda>r. r\<lparr>status := st, updated_at := now\<rparr>"])

lemma updateStatus_result_driver:
  "findById db oid = Some order \<Longrightarrow>
   fst (updateStatus db now oid st (Some d))
     = Some (order\<lparr>status := st, driver_id := Some d, updated_at := now\<rparr>)"
  unfolding updateStatus_def findById_def Let_def
  by (simp add: find_map_update
        [where g = "\<lambda>r. r\<lparr>status := st, driver_id := Some d, updated_at := now\<rparr>"])

lemma db_created_eq: "db_created = \<lparr>orders = [order_o1], driver_status = []\<rparr>"
  by (simp add: db_created_def createOrder_def create_def db_empty_def input_o1_def
      order_o1_def Let_def)

lemma db_cancelled_eq:
  "db_cancelled = \<lparr>orders = [order_o1\<lparr>status := cancelled, updated_at := 5\<rparr>], driver_status = []\<rparr>"
  by (simp add: db_cancelled_def db_created_eq updateOrderStatus_def findById_def isParty_def
      ALLOWED_TRANSITIONS_def isValidTransition_def updateStatus_def order_o1_def)

lemma db_delivered_eq:
  "db_delivered = \<lparr>orders = [order_o1\<lparr>status := delivered, updated_at := 5\<rparr>], driver_status = []\<rparr>"
  by (simp add: db_delivered_def db_created_eq updateOrderStatus_def findById_def isParty_def
      ALLOWED_TRANSITIONS_def isValidTransition_def updateStatus_def order_o1_def)

subsection \<open>The ordering guard\<close>

text \<open>What the guard does enforce: nothing follows \<open>delivered\<close>, and between statuses other
  than \<open>cancelled\<close> the rank strictly increases.\<close>

lemma nothing_follows_delivered: "\<not> isValidTransition delivered next"
  by (cases "next") (simp_all add: isValidTransition_def)

lemma isValidTransition_live:
  "current \<noteq> cancelled \<Longrightarrow> next \<noteq> cancelled \<Longrightarrow>
   isValidTransition current next \<longleftrightarrow> order_rank current < order_rank next"
  by (simp add: isValidTransition_def)

lemma cancel_from_live:
  "isValidTransition current cancelled \<longleftrightarrow> current \<notin> {delivered, cancelled}"
  by (simp add: isValidTransition_def)

subsection \<open>The permission table\<close>

lemma allowed_matches_spec:
  assumes "role \<in> set UserRole" and "UpdateOrderStatusSchema target"
  shows "target \<in> set (case ALLOWED_TRANSITIONS role of Some l \<Rightarrow> l | None \<Rightarrow> [])
          \<longleftrightarrow> target \<in> role_permits_spec role"
  using assms
  by (cases target)
     (auto simp: UserRole_def UpdateOrderStatusSchema_def ALLOWED_TRANSITIONS_def
        role_permits_spec_def)

subsection \<open>Keyed rows\<close>

lemma set_map_filter:
  "set (List.map_filter f xs) = {y. \<exists>x \<in> set xs. f x = Some y}"
  by (induction xs) (auto split: option.splits)

lemma find_by_key:
  "distinct (map f xs) \<Longrightarrow> x \<in> set xs \<Longrightarrow> find (\<lambda>r. f r = f x) xs = Some x"
  by (induction xs) (auto simp: rev_image_eqI)

lemma same_key_same_row:
  "distinct (map f xs) \<Longrightarrow> x \<in> set xs \<Longrightarrow> y \<in> set xs \<Longrightarrow> f x = f y \<Longrightarrow> x = y"
  by (auto simp: distinct_map dest: inj_onD)

lemma set_upsert_row:
  "distinct (map ds_driver_id rs) \<Longrightarrow>
   set (upsert_row new rs) = insert new {r \<in> set rs. ds_driver_id r \<noteq> ds_driver_id new}"
  by (induction rs) (auto simp: rev_image_eqI)

lemma keys_upsert_row:
  "set (map ds_driver_id (upsert_row new rs))
     = insert (ds_driver_id new) (set (map ds_driver_id rs))"
  by (induction rs) auto

lemma distinct_upsert_row:
  "distinct (map ds_driver_id rs) \<Longrightarrow> distinct (map ds_driver_id (upsert_row new rs))"
proof (induction rs)
  case Nil
  then show ?case by simp
next
  case (Cons r rs)
  have "ds_driver_id r \<notin> set (map ds_driver_id (upsert_row new rs))"
    if "ds_driver_id r \<noteq> ds_driver_id new"
    using that Cons.prems by (simp only: keys_upsert_row) auto
  with Cons show ?case by auto
qed

subsection \<open>Available drivers\<close>

lemma select_available_iff:
  "select_available db ds = Some a \<longleftrightarrow>
     is_available ds \<and> ds_driver_id ds \<notin> set (active_driver_ids db)
     \<and> current_lat ds = Some (av_current_lat a) \<and> current_lng ds = Some (av_current_lng a)
     \<and> av_driver_id a = ds_driver_id ds"
  by (cases a) (auto simp: select_available_def split: option.splits)

lemma available_iff:
  "a \<in> set (findAvailableDrivers db) \<longleftrightarrow>
   (\<exists>ds \<in> set (driver_status db).
      is_available ds \<and> ds_driver_id ds \<notin> set (active_driver_ids db)
      \<and> current_lat ds = Some (av_current_lat a) \<and> current_lng ds = Some (av_current_lng a)
      \<and> av_driver_id a = ds_driver_id ds)"
  by (simp add: findAvailableDrivers_def set_map_filter select_available_iff)

lemma no_position_not_available:
  assumes "distinct (map ds_driver_id (driver_status db))"
    and "ds \<in> set (driver_status db)"
    and "current_lat ds = None \<or> current_lng ds = None"
  shows "ds_driver_id ds \<notin> av_driver_id ` set (findAvailableDrivers db)"
proof
  assume "ds_driver_id ds \<in> av_driver_id ` set (findAvailableDrivers db)"
  then obtain a where a: "a \<in> set (findAvailableDrivers db)" "av_driver_id a = ds_driver_id ds"
    by auto
  then obtain ds' where ds': "ds' \<in> set (driver_status db)" "ds_driver_id ds' = ds_driver_id ds"
      "current_lat ds' \<noteq> None" "current_lng ds' \<noteq> None"
    by (auto simp: available_iff)
  from assms(1) ds'(1) assms(2) ds'(2) have "ds' = ds"
    by (rule same_key_same_row)
  with ds'(3,4) assms(3) show False by auto
qed

lemma never_reported_not_available:
  "d \<notin> ds_driver_id ` set (driver_status db) \<Longrightarrow>
   d \<notin> av_driver_id ` set (findAvailableDrivers db)"
  by (auto simp: available_iff)

lemma active_upsert [simp]:
  "active_driver_ids (upsertDriverStatus db now d a la lg) = active_driver_ids db"
  by (simp add: active_driver_ids_def upsertDriverStatus_def)

lemma fetch_put_ok:
  "d \<noteq> [] \<Longrightarrow> response_ok (fst (fetch tr now (put_location d la lg)))"
  by (simp add: fetch_def put_location_def segment0_def handleUpdateLocation_def Let_def
      response_ok_def)

subsection \<open>The invariants are kept\<close>

lemma created_unassigned_updateStatus:
  "created_unassigned db \<Longrightarrow> st \<noteq> created \<Longrightarrow>
   created_unassigned (snd (updateStatus db now oid st d))"
  by (cases d) (auto simp: created_unassigned_def updateStatus_def Let_def)

lemma allowed_never_created:
  "created \<notin> set (case ALLOWED_TRANSITIONS role of Some l \<Rightarrow> l | None \<Rightarrow> [])"
  by (simp add: ALLOWED_TRANSITIONS_def)

lemma created_unassigned_updateOrderStatus:
  assumes "created_unassigned db"
  shows "created_unassigned (snd (updateOrderStatus db now oid target uid role))"
proof (cases "target = created")
  case True
  then show ?thesis
    using assms allowed_never_created [of role]
    by (simp add: updateOrderStatus_def Let_def split: option.splits)
next
  case False
  then show ?thesis
    using assms created_unassigned_updateStatus [OF assms False, of now oid None]
    by (auto simp: updateOrderStatus_def Let_def split: option.splits prod.splits)
qed

lemma created_unassigned_dispatchOrder:
  "created_unassigned db \<Longrightarrow> created_unassigned (dispatchOrder db now order)"
  by (simp add: dispatchOrder_def Let_def created_unassigned_updateStatus split: list.splits)

lemma created_unassigned_triggerDispatch:
  "created_unassigned db \<Longrightarrow> created_unassigned (snd (triggerDispatch db now oid))"
  by (simp add: triggerDispatch_def Let_def created_unassigned_dispatchOrder
      split: option.splits)

lemma created_unassigned_createOrder:
  "created_unassigned db \<Longrightarrow> created_unassigned (snd (createOrder db now oid cid inp))"
  by (auto simp: createOrder_def create_def Let_def created_unassigned_def)

lemma created_unassigned_upsertDriverStatus:
  "created_unassigned db \<Longrightarrow> created_unassigned (upsertDriverStatus db now d a la lg)"
  by (simp add: upsertDriverStatus_def created_unassigned_def)

lemma created_unassigned_row:
  "created_unassigned db \<Longrightarrow> findById db oid = Some order \<Longrightarrow> status order = created \<Longrightarrow>
   driver_id order = None"
  by (auto simp: created_unassigned_def findById_def find_Some_iff)

lemma primary_keys_updateStatus:
  "primary_keys db \<Longrightarrow> primary_keys (snd (updateStatus db now oid st d))"
proof -
  have "order_id \<circ> (\<lambda>r. if order_id r = oid then g r else r) = order_id"
    if "\<And>r. order_id (g r) = order_id r" for g :: "OrderRow \<Rightarrow> OrderRow"
    using that by (auto simp: fun_eq_iff)
  then show "primary_keys db \<Longrightarrow> primary_keys (snd (updateStatus db now oid st d))"
    by (cases d) (simp_all add: primary_keys_def updateStatus_def Let_def)
qed

lemma primary_keys_upsertDriverStatus:
  "primary_keys db \<Longrightarrow> primary_keys (upsertDriverStatus db now d a la lg)"
  by (simp add: primary_keys_def upsertDriverStatus_def distinct_upsert_row)

lemma primary_keys_createOrder:
  "primary_keys db \<Longrightarrow> findById db oid = None \<Longrightarrow>
   primary_keys (snd (createOrder db now oid cid inp))"
  by (auto simp: primary_keys_def createOrder_def create_def Let_def findById_def find_None_iff)

subsection \<open>The example states, evaluated\<close>

lemmas eval_defs = updateOrderStatus_def findById_def isParty_def
  ALLOWED_TRANSITIONS_def isValidTransition_def updateStatus_def order_o1_def
  createOrder_def create_def db_empty_def input_o1_def upsertDriverStatus_def
  dispatchOrder_def findAvailableDrivers_def select_available_def active_driver_ids_def
  rank_drivers_def Let_def

lemma db_d1_eq:
  "db_d1 = \<lparr>orders = [],
            driver_status = [\<lparr>ds_driver_id = ''d1'', is_available = True, current_lat = Some 1,
                              current_lng = Some 1, ds_updated_at = 0\<rparr>]\<rparr>"
  by (simp add: db_d1_def db_empty_def upsertDriverStatus_def)

lemma db_d1_cancelled_eq:
  "db_d1_cancelled =
     \<lparr>orders = [order_o1\<lparr>status := cancelled, updated_at := 5\<rparr>],
      driver_status = [\<lparr>ds_driver_id = ''d1'', is_available = True, current_lat = Some 1,
                        current_lng = Some 1, ds_updated_at = 0\<rparr>]\<rparr>"
  by (simp add: db_d1_cancelled_def db_d1_def eval_defs)

lemma db_two_drivers_eq:
  "db_two_drivers =
     \<lparr>orders = [order_o1],
      driver_status = [\<lparr>ds_driver_id = ''d1'', is_available = True, current_lat = Some 1,
                        current_lng = Some 1, ds_updated_at = 1\<rparr>,
                       \<lparr>ds_driver_id = ''d2'', is_available = True, current_lat = Some 1,
                        current_lng = Some 1, ds_updated_at = 2\<rparr>]\<rparr>"
  by (simp add: db_two_drivers_def db_created_eq upsertDriverStatus_def)

lemma db_first_dispatch_eq:
  "db_first_dispatch =
     \<lparr>orders = [order_o1\<lparr>status := accepted, driver_id := Some ''d1'', updated_at := 10\<rparr>],
      driver_status = driver_status db_two_drivers\<rparr>"
  by (simp add: db_first_dispatch_def db_two_drivers_eq eval_defs)

lemma db_second_dispatch_eq:
  "db_second_dispatch =
     \<lparr>orders = [order_o1\<lparr>status := accepted, driver_id := Some ''d2'', updated_at := 11\<rparr>],
      driver_status = driver_status db_two_drivers\<rparr>"
  by (simp add: db_second_dispatch_def db_first_dispatch_eq db_two_drivers_eq eval_defs)

subsection \<open>The tracker\<close>

lemma haversineDistance_same [simp]: "haversineDistance a b a b = 0"
  by (simp add: haversineDistance_def toRad_def atan2_def)

lemma prune_loop_gen:
  "prune_loop thr es (locs, p) =
     (filter (\<lambda>e. fst e \<notin> fst ` {x \<in> set es. \<not> fresh_entry thr x}) locs,
      p \<or> (\<exists>x \<in> set es. \<not> fresh_entry thr x))"
proof (induction es arbitrary: locs p)
  case Nil
  then show ?case by simp
next
  case (Cons e es)
  obtain k loc where e: "e = (k, loc)" by (cases e)
  show ?case
  proof (cases "loc_updated_at loc < thr")
    case True
    have keys: "fst ` {x \<in> set ((k, loc) # es). \<not> fresh_entry thr x}
                  = insert k (fst ` {x \<in> set es. \<not> fresh_entry thr x})"
      using True by (force simp: fresh_entry_def)
    have flt: "filter (\<lambda>e. fst e \<notin> fst ` {x \<in> set es. \<not> fresh_entry thr x}) (AList.delete k locs)
          = filter (\<lambda>e. fst e \<notin> fst ` {x \<in> set ((k, loc) # es). \<not> fresh_entry thr x}) locs"
      unfolding keys by (induction locs) auto
    have ex: "\<exists>x \<in> set ((k, loc) # es). \<not> fresh_entry thr x"
      using True by (simp add: fresh_entry_def)
    have step: "prune_loop thr ((k, loc) # es) (locs, p) = prune_loop thr es (AList.delete k locs, True)"
      using True by simp
    show ?thesis
      unfolding e step Cons.IH flt using ex by blast
  next
    case False
    have same: "{x \<in> set ((k, loc) # es). \<not> fresh_entry thr x} = {x \<in> set es. \<not> fresh_entry thr x}"
      using False by (auto simp: fresh_entry_def)
    have ex: "(\<exists>x \<in> set ((k, loc) # es). \<not> fresh_entry thr x) = (\<exists>x \<in> set es. \<not> fresh_entry thr x)"
      using False by (auto simp: fresh_entry_def)
    have step: "prune_loop thr ((k, loc) # es) (locs, p) = prune_loop thr es (locs, p)"
      using False by simp
    show ?thesis
      unfolding e step Cons.IH same ex by (rule refl)
  qed
qed

lemma prune_loop_eq:
  assumes "store_ok locs"
  shows "prune_loop thr locs (locs, False) =
           (filter (fresh_entry thr) locs, \<exists>x \<in> set locs. \<not> fresh_entry thr x)"
proof -
  have "(fst e \<notin> fst ` {x \<in> set locs. \<not> fresh_entry thr x}) = fresh_entry thr e"
    if "e \<in> set locs" for e
  proof
    assume "fst e \<notin> fst ` {x \<in> set locs. \<not> fresh_entry thr x}"
    with that show "fresh_entry thr e" by auto
  next
    assume f: "fresh_entry thr e"
    show "fst e \<notin> fst ` {x \<in> set locs. \<not> fresh_entry thr x}"
    proof
      assume "fst e \<in> fst ` {x \<in> set locs. \<not> fresh_entry thr x}"
      then obtain x where x: "x \<in> set locs" "\<not> fresh_entry thr x" "fst x = fst e" by auto
      from assms have "distinct (map fst locs)" by (simp add: store_ok_def)
      from this x(1) that x(3) have "x = e" by (rule same_key_same_row)
      with x(2) f show False by simp
    qed
  qed
  then have "filter (\<lambda>e. fst e \<notin> fst ` {x \<in> set locs. \<not> fresh_entry thr x}) locs
             = filter (fresh_entry thr) locs"
    by (intro filter_cong) simp_all
  then show ?thesis by (simp add: prune_loop_gen)
qed

lemma fetch_nearby:
  "req_method r = ''POST'' \<Longrightarrow> segment0 (req_segments r) = ''nearby'' \<Longrightarrow>
   fetch s now r = handleNearby (ensureLoaded s) now (req_body r)"
  by (simp add: fetch_def)

lemma loaded_ensureLoaded [simp]: "loaded (ensureLoaded s)"
  by (simp add: ensureLoaded_def)

lemma ensureLoaded_idem [simp]: "loaded s \<Longrightarrow> ensureLoaded s = s"
  by (simp add: ensureLoaded_def)

lemma fetch_get:
  "fetch s now (get_location d) =
     (if d = [] then Response 404 (ErrorBody ''Not found'') else handleGetLocation (ensureLoaded s) d,
      ensureLoaded s)"
  by (simp add: fetch_def get_location_def segment0_def segment1_def Let_def)


lemma handleNearby_eq:
  assumes "store_ok (locations s)" and "body_lat b = Some qlat" and "body_lng b = Some qlng"
  shows "handleNearby s now b =
    (Response 200 (SuccessNearby (sort_key snd
        (filter (\<lambda>e. snd e \<le> (case body_radius_km b of None \<Rightarrow> 10 | Some r \<Rightarrow> r))
           (map (\<lambda>loc. (loc, haversineDistance qlat qlng (loc_lat loc) (loc_lng loc)))
              (map snd (filter (fresh_entry (now - 5 * 60 * 1000)) (locations s))))))),
     if \<exists>x \<in> set (locations s). \<not> fresh_entry (now - 5 * 60 * 1000) x
     then s\<lparr>locations := filter (fresh_entry (now - 5 * 60 * 1000)) (locations s),
            storage := Some (filter (fresh_entry (now - 5 * 60 * 1000)) (locations s))\<rparr>
     else s\<lparr>locations := filter (fresh_entry (now - 5 * 60 * 1000)) (locations s)\<rparr>)"
  using assms(2,3) prune_loop_eq [OF assms(1), of "now - 5 * 60 * 1000"]
  by (simp add: handleNearby_def Let_def persist_def)

lemma map_of_filter_stale:
  assumes "store_ok locs" and "(d, loc) \<in> set locs" and "\<not> fresh_entry thr (d, loc)"
  shows "map_of (filter (fresh_entry thr) locs) d = None"
proof (rule ccontr)
  assume "map_of (filter (fresh_entry thr) locs) d \<noteq> None"
  then obtain l where "map_of (filter (fresh_entry thr) locs) d = Some l" by auto
  then have "(d, l) \<in> set (filter (fresh_entry thr) locs)" by (rule map_of_SomeD)
  then have l: "(d, l) \<in> set locs" "fresh_entry thr (d, l)" by simp_all
  from assms(1) have "distinct (map fst locs)" by (simp add: store_ok_def)
  from this l(1) assms(2) have "(d, l) = (d, loc)" by (rule same_key_same_row) simp
  with l(2) assms(3) show False by simp
qed

subsection \<open>The ranking\<close>

lemma set_rank_drivers:
  "set (rank_drivers order avs) =
     (\<lambda>d. (d, haversineDistance (pickup_lat order) (pickup_lng order) (av_current_lat d) (av_current_lng d))) ` set avs"
  by (simp add: rank_drivers_def)

lemma ranked_ids:
  "(av_driver_id \<circ> fst) ` set (rank_drivers order avs) = av_driver_id ` set avs"
  by (force simp: set_rank_drivers)

subsection \<open>The example states of the tracker, evaluated\<close>

lemmas tracker_defs = fetch_def ensureLoaded_def persist_def handleUpdateLocation_def
  handleGetLocation_def handleRemoveLocation_def handleNearby_def segment0_def segment1_def
  put_location_def get_location_def delete_location_def post_nearby_def no_body_def Let_def

lemma tracker_two_eq:
  "tracker_two = \<lparr>locations = [(''d2'', entry_d2), (''d1'', entry_d1)], loaded = True,
     storage = Some [(''d2'', entry_d2), (''d1'', entry_d1)]\<rparr>"
  by (simp add: tracker_two_def tracker_new_def tracker_defs entry_d1_def entry_d2_def)

lemma tracker_d1_eq:
  "tracker_d1 = \<lparr>locations = [(''d1'', entry_d1)], loaded = True, storage = Some [(''d1'', entry_d1)]\<rparr>"
  by (simp add: tracker_d1_def tracker_new_def tracker_defs entry_d1_def)

lemma sys_reported_eq:
  "sys_reported =
     \<lparr>sys_db = \<lparr>orders = [order_o1],
                driver_status = [\<lparr>ds_driver_id = ''d1'', is_available = True, current_lat = Some 1,
                                  current_lng = Some 1, ds_updated_at = 1\<rparr>]\<rparr>,
      sys_tracker = \<lparr>locations = [(''d1'', entry_d1)], loaded = True,
                     storage = Some [(''d1'', entry_d1)]\<rparr>\<rparr>"
  by (simp add: sys_reported_def sys_new_def updateLocation_def tracker_new_def tracker_defs
      response_ok_def db_created_eq upsertDriverStatus_def entry_d1_def)

lemma sys_evicted_eq:
  "sys_evicted =
     \<lparr>sys_db = \<lparr>orders = [order_o1],
                driver_status = [\<lparr>ds_driver_id = ''d1'', is_available = True, current_lat = Some 1,
                                  current_lng = Some 1, ds_updated_at = 1\<rparr>]\<rparr>,
      sys_tracker = \<lparr>locations = [], loaded = True, storage = Some []\<rparr>\<rparr>"
  by (simp add: sys_evicted_def sys_reported_eq getNearbyDrivers_def tracker_defs
      response_ok_def entry_d1_def)

lemma db_toggled_eq:
  "db_toggled = \<lparr>orders = [],
      driver_status = [\<lparr>ds_driver_id = ''d1'', is_available = True, current_lat = None,
                        current_lng = None, ds_updated_at = 5\<rparr>]\<rparr>"
  by (simp add: db_toggled_def sys_d1_def db_d1_def db_empty_def setAvailability_def upsertDriverStatus_def)

subsection \<open>What holds of dispatch when calls do not overlap\<close>

text \<open>
  A manual dispatch checks the status it has just read, and a status update never writes
  the driver; so, as long as no call of \<^verbatim>\<open>dispatchOrder\<close> runs on a row read earlier,
  an order that is no longer \<open>created\<close> is not dispatched again and a driver once set stays.
\<close>

lemma triggerDispatch_not_created:
  "findById db oid = Some order \<Longrightarrow> status order \<noteq> created \<Longrightarrow>
   triggerDispatch db now oid = (Inl AlreadyDispatched, db)"
  by (simp add: triggerDispatch_def)

lemma triggerDispatch_refuses_assigned:
  assumes "created_unassigned db" and "findById db oid = Some order"
    and "driver_id order \<noteq> None"
  shows "triggerDispatch db now oid = (Inl AlreadyDispatched, db)"
proof -
  have "status order \<noteq> created"
    using created_unassigned_row [OF assms(1,2)] assms(3) by blast
  with assms(2) show ?thesis by (rule triggerDispatch_not_created)
qed

lemma updateOrderStatus_keeps_drivers:
  "map driver_id (orders (snd (updateOrderStatus db now oid target uid role)))
     = map driver_id (orders db)"
proof -
  have "map driver_id (orders (snd (updateStatus db now oid target None)))
          = map driver_id (orders db)"
    by (simp add: updateStatus_def Let_def comp_def if_distrib cong: if_cong)
  then show ?thesis
    by (auto simp: updateOrderStatus_def Let_def split: option.splits prod.splits)
qed

subsection \<open>The ordering guard against the specification's\<close>

lemma guard_agrees_unless_cancelled:
  "current \<noteq> cancelled \<Longrightarrow> isValidTransition current target = ordering_guard_spec current target"
  by (cases current; cases target)
     (simp_all add: isValidTransition_def ordering_guard_spec_def spec_rank_def)

text \<open>For an order that is not \<open>cancelled\<close>, a status update goes through the four checks
  in the order of the specification, with the specification's guard and table.\<close>

lemma updateOrderStatus_checks:
  assumes "role \<in> set UserRole" and "UpdateOrderStatusSchema target"
  shows "(findById db oid = None \<longrightarrow>
            updateOrderStatus db now oid target uid role = (Inl NotFound, db))
       \<and> (\<forall>order. findById db oid = Some order \<longrightarrow>
            (\<not> isParty order uid role \<longrightarrow>
               updateOrderStatus db now oid target uid role = (Inl AccessDenied, db))
          \<and> (isParty order uid role \<and> target \<notin> role_permits_spec role \<longrightarrow>
               updateOrderStatus db now oid target uid role = (Inl Forbidden, db))
          \<and> (isParty order uid role \<and> target \<in> role_permits_spec role
               \<and> status order \<noteq> cancelled
               \<and> \<not> ordering_guard_spec (status order) target \<longrightarrow>
               updateOrderStatus db now oid target uid role = (Inl InvalidTransition, db))
          \<and> (isParty order uid role \<and> target \<in> role_permits_spec role
               \<and> status order \<noteq> cancelled
               \<and> ordering_guard_spec (status order) target \<longrightarrow>
               fst (updateOrderStatus db now oid target uid role)
                 = Inr (Some (order\<lparr>status := target, updated_at := now\<rparr>))))"
proof -
  note perm = allowed_matches_spec [OF assms]
  show ?thesis
  proof (cases "findById db oid")
    case None
    then show ?thesis by (simp add: updateOrderStatus_def)
  next
    case (Some order)
    have ok: "fst (updateStatus db now oid target None)
                = Some (order\<lparr>status := target, updated_at := now\<rparr>)"
      using Some by (rule updateStatus_result)
    show ?thesis
      using Some perm ok guard_agrees_unless_cancelled [of "status order" target]
      by (auto simp: updateOrderStatus_def Let_def split: prod.splits)
  qed
qed

lemma updateOrderStatus_checks_examples:
  "''merchant'' \<in> set UserRole \<and> ''driver'' \<in> set UserRole \<and> ''customer'' \<in> set UserRole
   \<and> UpdateOrderStatusSchema accepted
   \<and> findById db_created ''o2'' = None
   \<and> updateOrderStatus db_created 10 ''o2'' accepted ''m1'' ''merchant''
       = (Inl NotFound, db_created)
   \<and> findById db_created ''o1'' = Some order_o1
   \<and> \<not> isParty order_o1 ''x9'' ''driver''
   \<and> updateOrderStatus db_created 10 ''o1'' accepted ''x9'' ''driver''
       = (Inl AccessDenied, db_created)
   \<and> isParty order_o1 ''c1'' ''customer'' \<and> accepted \<notin> role_permits_spec ''customer''
   \<and> updateOrderStatus db_created 10 ''o1'' accepted ''c1'' ''customer''
       = (Inl Forbidden, db_created)
   \<and> findById db_delivered ''o1'' = Some (order_o1\<lparr>status := delivered, updated_at := 5\<rparr>)
   \<and> isParty (order_o1\<lparr>status := delivered, updated_at := 5\<rparr>) ''m1'' ''merchant''
   \<and> accepted \<in> role_permits_spec ''merchant''
   \<and> \<not> ordering_guard_spec delivered accepted
   \<and> updateOrderStatus db_delivered 10 ''o1'' accepted ''m1'' ''merchant''
       = (Inl InvalidTransition, db_delivered)
   \<and> ordering_guard_spec created accepted
   \<and> fst (updateOrderStatus db_created 10 ''o1'' accepted ''m1'' ''merchant'')
       = Inr (Some (order_o1\<lparr>status := accepted, updated_at := 10\<rparr>))"
proof -
  have roles: "''merchant'' \<in> set UserRole" "''driver'' \<in> set UserRole"
    "''customer'' \<in> set UserRole"
    by (simp_all add: UserRole_def)
  have target: "UpdateOrderStatusSchema accepted"
    by (simp add: UpdateOrderStatusSchema_def)
  have missing: "findById db_created ''o2'' = None"
    and present: "findById db_created ''o1'' = Some order_o1"
    by (simp_all add: db_created_eq findById_def order_o1_def)
  have done_row: "findById db_delivered ''o1''
                    = Some (order_o1\<lparr>status := delivered, updated_at := 5\<rparr>)"
    by (simp add: db_delivered_eq findById_def order_o1_def)
  have stranger: "\<not> isParty order_o1 ''x9'' ''driver''"
    and customer: "isParty order_o1 ''c1'' ''customer''"
    and merchant: "isParty order_o1 ''m1'' ''merchant''"
    and merchant': "isParty (order_o1\<lparr>status := delivered, updated_at := 5\<rparr>) ''m1'' ''merchant''"
    by (simp_all add: isParty_def order_o1_def)
  have perms: "accepted \<notin> role_permits_spec ''customer''"
    "accepted \<in> role_permits_spec ''merchant''"
    by (simp_all add: role_permits_spec_def)
  have guard: "\<not> ordering_guard_spec delivered accepted" "ordering_guard_spec created accepted"
    by (simp_all add: ordering_guard_spec_def spec_rank_def)
  have st: "status order_o1 = created"
    "status (order_o1\<lparr>status := delivered, updated_at := 5\<rparr>) = delivered"
    by (simp_all add: order_o1_def)
  note m = updateOrderStatus_checks [OF roles(1) target]
  note d = updateOrderStatus_checks [OF roles(2) target]
  note c = updateOrderStatus_checks [OF roles(3) target]
  have 1: "updateOrderStatus db_created 10 ''o2'' accepted ''m1'' ''merchant''
             = (Inl NotFound, db_created)"
    using m [of db_created "''o2''" 10 "''m1''"] missing by blast
  have 2: "updateOrderStatus db_created 10 ''o1'' accepted ''x9'' ''driver''
             = (Inl AccessDenied, db_created)"
    using d [of db_created "''o1''" 10 "''x9''"] present stranger by blast
  have 3: "updateOrderStatus db_created 10 ''o1'' accepted ''c1'' ''customer''
             = (Inl Forbidden, db_created)"
    using c [of db_created "''o1''" 10 "''c1''"] present customer perms(1) by blast
  have 4: "updateOrderStatus db_delivered 10 ''o1'' accepted ''m1'' ''merchant''
             = (Inl InvalidTransition, db_delivered)"
    using m [of db_delivered "''o1''" 10 "''m1''"] done_row merchant' perms(2) guard(1) st(2)
    by simp
  have 5: "fst (updateOrderStatus db_created 10 ''o1'' accepted ''m1'' ''merchant'')
             = Inr (Some (order_o1\<lparr>status := accepted, updated_at := 10\<rparr>))"
    using m [of db_created "''o1''" 10 "''m1''"] present merchant perms(2) guard(2) st(1)
    by simp
  show ?thesis
    using roles target missing present stranger customer perms done_row merchant' guard 1 2 3 4 5
    by simp
qed

subsection \<open>Timestamps along an execution\<close>








subsection \<open>A driver who reports again\<close>

lemma reinserted_driver_answered_last:
  "fst (fetch tracker_reinserted 4 (post_nearby 1 1 10))
     = Response 200 (SuccessNearby
         [(entry_d1, 0),
          (\<lparr>loc_driver_id = ''d2'', loc_lat = 1, loc_lng = 1, loc_updated_at = 3\<rparr>, 0)])"
  by (simp add: tracker_reinserted_def tracker_two_eq tracker_defs entry_d1_def entry_d2_def)

section \<open>The claims\<close>

text \<open>
  C5. The ordering guard lets a status follow \<open>cancelled\<close>: the table local to
  \<^verbatim>\<open>isValidTransition\<close> ranks \<open>cancelled\<close> at \<open>-1\<close>, below every other status, so the
  guard accepts any target other than \<open>cancelled\<close> from it. Here the merchant of a
  cancelled order sets it to \<open>accepted\<close>, and the update goes through.
\<close>

theorem cancelled_order_reopened:
  "isValidTransition cancelled accepted
   \<and> findById db_cancelled ''o1'' = Some (order_o1\<lparr>status := cancelled, updated_at := 5\<rparr>)
   \<and> updateOrderStatus db_cancelled 10 ''o1'' accepted ''m1'' ''merchant''
       = (Inr (Some (order_o1\<lparr>status := accepted, updated_at := 10\<rparr>)),
          \<lparr>orders = [order_o1\<lparr>status := accepted, updated_at := 10\<rparr>], driver_status = []\<rparr>)"
  by (simp add: db_cancelled_eq updateOrderStatus_def findById_def isParty_def
      ALLOWED_TRANSITIONS_def isValidTransition_def updateStatus_def order_o1_def)

text \<open>
  C6. The first three failures are as claimed, but not the fourth: the merchant of a
  cancelled order asks for \<open>preparing\<close>; the actor is a party, the role permits the target
  and the specification's ordering guard rejects the step, \<open>cancelled\<close> being terminal;
  yet no \<open>InvalidTransition\<close> is raised and the order is updated. The guard of the code
  ranks \<open>cancelled\<close> below every status.
\<close>

theorem cancelled_order_passes_guard:
  "findById db_cancelled ''o1'' = Some (order_o1\<lparr>status := cancelled, updated_at := 5\<rparr>)
   \<and> isParty (order_o1\<lparr>status := cancelled, updated_at := 5\<rparr>) ''m1'' ''merchant''
   \<and> preparing \<in> role_permits_spec ''merchant''
   \<and> \<not> ordering_guard_spec cancelled preparing
   \<and> updateOrderStatus db_cancelled 10 ''o1'' preparing ''m1'' ''merchant''
       = (Inr (Some (order_o1\<lparr>status := preparing, updated_at := 10\<rparr>)),
          \<lparr>orders = [order_o1\<lparr>status := preparing, updated_at := 10\<rparr>], driver_status = []\<rparr>)"
  by (simp add: db_cancelled_eq updateOrderStatus_def findById_def isParty_def
      ALLOWED_TRANSITIONS_def isValidTransition_def updateStatus_def order_o1_def
      role_permits_spec_def ordering_guard_spec_def spec_rank_def)

text \<open>
  C1. The write of a dispatch is not conditioned on the order's status:
  \<^verbatim>\<open>dispatchOrder\<close> never reads the status, and \<^verbatim>\<open>updateStatus\<close> updates
  \<^verbatim>\<open>WHERE id = ?\<close> alone. Here the customer has cancelled the order while the dispatch
  started by its creation was pending; when that dispatch runs, no \<open>AlreadyDispatched\<close> is
  raised, the cancelled order becomes \<open>accepted\<close> and receives the driver \<open>d1\<close>.
\<close>

theorem dispatch_overwrites_cancelled_order:
  "fst (createOrder db_d1 0 ''o1'' ''c1'' input_o1) = Some order_o1
   \<and> findById db_d1_cancelled ''o1'' = Some (order_o1\<lparr>status := cancelled, updated_at := 5\<rparr>)
   \<and> findById (dispatchOrder db_d1_cancelled 6 order_o1) ''o1''
       = Some (order_o1\<lparr>status := accepted, driver_id := Some ''d1'', updated_at := 6\<rparr>)"
  by (simp add: db_d1_cancelled_eq db_d1_eq eval_defs)

text \<open>
  C2. The driver of an order can change. Two dispatch attempts on the same order have both
  read it while it was \<open>created\<close>. The first assigns \<open>d1\<close>; the second, whose write is not
  conditioned on the status either, finds \<open>d1\<close> busy and replaces it by \<open>d2\<close>.
\<close>

theorem driver_reassigned_by_second_dispatch:
  "findById db_two_drivers ''o1'' = Some order_o1 \<and> status order_o1 = created
   \<and> map driver_id (orders db_two_drivers) = [None]
   \<and> map driver_id (orders db_first_dispatch) = [Some ''d1'']
   \<and> map driver_id (orders db_second_dispatch) = [Some ''d2'']"
  by (simp add: db_second_dispatch_eq db_first_dispatch_eq db_two_drivers_eq findById_def
      order_o1_def)

text \<open>
  C8. A manual dispatch of an order that is \<open>created\<close> (and so has no driver) while no
  driver is available answers \<open>{assigned: false}\<close> without an error and leaves the whole
  database, in particular the order's status and driver, as it was; so does the call of
  \<^verbatim>\<open>dispatchOrder\<close> that an order's creation starts.
\<close>

theorem triggerDispatch_no_drivers:
  assumes "findById db oid = Some order" and "status order = created"
    and "driver_id order = None" and "findAvailableDrivers db = []"
  shows "triggerDispatch db now oid = (Inr \<lparr>assigned = False, res_driver_id = None\<rparr>, db)
       \<and> dispatchOrder db now order = db"
  using assms by (simp add: triggerDispatch_def dispatchOrder_def)

theorem triggerDispatch_no_drivers_witness:
  "findById db_created ''o1'' = Some order_o1 \<and> status order_o1 = created
   \<and> driver_id order_o1 = None \<and> findAvailableDrivers db_created = []
   \<and> triggerDispatch db_created 10 ''o1''
       = (Inr \<lparr>assigned = False, res_driver_id = None\<rparr>, db_created)
   \<and> dispatchOrder db_created 10 order_o1 = db_created"
proof -
  have a: "findById db_created ''o1'' = Some order_o1"
    by (simp add: db_created_eq findById_def order_o1_def)
  have b: "status order_o1 = created" and c: "driver_id order_o1 = None"
    by (simp_all add: order_o1_def)
  have d: "findAvailableDrivers db_created = []"
    by (simp add: db_created_eq findAvailableDrivers_def)
  show ?thesis
    using a b c d triggerDispatch_no_drivers [OF a b c d, of 10] by simp
qed

text \<open>
  C10. \<^verbatim>\<open>setAvailability\<close> passes no position, so the driver's availability record is
  rewritten with both coordinates null, whatever the new flag; the driver is then not among
  the available drivers that dispatch ranks. A later location update of a driver who is on
  no active order brings the driver back.
\<close>

theorem setAvailability_clears_position:
  assumes "primary_keys (sys_db sys)"
  shows "find (\<lambda>r. ds_driver_id r = d) (driver_status (sys_db (setAvailability sys now d a)))
           = Some \<lparr>ds_driver_id = d, is_available = a, current_lat = None, current_lng = None,
                   ds_updated_at = now\<rparr>
       \<and> d \<notin> av_driver_id ` set (findAvailableDrivers (sys_db (setAvailability sys now d a)))
       \<and> (d \<noteq> [] \<and> d \<notin> set (active_driver_ids (sys_db sys)) \<longrightarrow>
            d \<in> av_driver_id ` set (findAvailableDrivers
                   (sys_db (snd (updateLocation (setAvailability sys now d a) now' d la lg)))))"
proof -
  let ?new = "\<lparr>ds_driver_id = d, is_available = a, current_lat = None, current_lng = None,
                   ds_updated_at = now\<rparr>"
  let ?sys = "setAvailability sys now d a"
  have dist: "distinct (map ds_driver_id (driver_status (sys_db sys)))"
    using assms by (simp add: primary_keys_def)
  have rows: "driver_status (sys_db ?sys) = upsert_row ?new (driver_status (sys_db sys))"
    by (simp add: setAvailability_def upsertDriverStatus_def)
  have dist': "distinct (map ds_driver_id (driver_status (sys_db ?sys)))"
    unfolding rows using dist by (rule distinct_upsert_row)
  have mem: "?new \<in> set (driver_status (sys_db ?sys))"
    unfolding rows by (simp add: set_upsert_row [OF dist])
  have 1: "find (\<lambda>r. ds_driver_id r = d) (driver_status (sys_db ?sys)) = Some ?new"
    using find_by_key [OF dist' mem] by simp
  have 2: "d \<notin> av_driver_id ` set (findAvailableDrivers (sys_db ?sys))"
    using no_position_not_available [OF dist' mem] by simp
  have 3: "d \<in> av_driver_id ` set (findAvailableDrivers
                   (sys_db (snd (updateLocation ?sys now' d la lg))))"
    if "d \<noteq> []" "d \<notin> set (active_driver_ids (sys_db sys))"
  proof -
    let ?row = "\<lparr>ds_driver_id = d, is_available = True, current_lat = Some la,
                  current_lng = Some lg, ds_updated_at = now'\<rparr>"
    let ?db = "sys_db (snd (updateLocation ?sys now' d la lg))"
    have db: "?db = upsertDriverStatus (sys_db ?sys) now' d True (Some la) (Some lg)"
      using fetch_put_ok [OF that(1), of "sys_tracker ?sys" now' la lg]
      by (cases "fetch (sys_tracker ?sys) now' (put_location d la lg)")
         (simp add: updateLocation_def)
    have "?row \<in> set (driver_status ?db)"
      unfolding db upsertDriverStatus_def by (simp add: set_upsert_row [OF dist'])
    moreover have "active_driver_ids ?db = active_driver_ids (sys_db sys)"
      unfolding db by (simp add: setAvailability_def)
    ultimately have "\<lparr>av_driver_id = d, av_current_lat = la, av_current_lng = lg\<rparr>
                       \<in> set (findAvailableDrivers ?db)"
      using that(2) unfolding available_iff by (intro bexI [of _ ?row]) simp_all
    then have "av_driver_id \<lparr>av_driver_id = d, av_current_lat = la, av_current_lng = lg\<rparr>
                 \<in> av_driver_id ` set (findAvailableDrivers ?db)"
      by (rule imageI)
    then show ?thesis by simp
  qed
  from 1 2 3 show ?thesis by blast
qed

theorem setAvailability_clears_position_witness:
  "primary_keys (sys_db sys_d1)
   \<and> map av_driver_id (findAvailableDrivers (sys_db sys_d1)) = [''d1'']
   \<and> find (\<lambda>r. ds_driver_id r = ''d1'')
        (driver_status (sys_db (setAvailability sys_d1 5 ''d1'' True)))
       = Some \<lparr>ds_driver_id = ''d1'', is_available = True, current_lat = None,
               current_lng = None, ds_updated_at = 5\<rparr>
   \<and> ''d1'' \<notin> av_driver_id ` set (findAvailableDrivers
                  (sys_db (setAvailability sys_d1 5 ''d1'' True)))
   \<and> ''d1'' \<in> av_driver_id ` set (findAvailableDrivers
        (sys_db (snd (updateLocation (setAvailability sys_d1 5 ''d1'' True) 6 ''d1'' 1 1))))"
proof -
  have pk: "primary_keys (sys_db sys_d1)"
    by (simp add: sys_d1_def db_d1_eq primary_keys_def)
  have before: "map av_driver_id (findAvailableDrivers (sys_db sys_d1)) = [''d1'']"
    by (simp add: sys_d1_def db_d1_eq findAvailableDrivers_def select_available_def
        active_driver_ids_def)
  have free: "''d1'' \<noteq> [] \<and> ''d1'' \<notin> set (active_driver_ids (sys_db sys_d1))"
    by (simp add: sys_d1_def db_d1_eq active_driver_ids_def)
  show ?thesis
    using pk before free setAvailability_clears_position [OF pk, of "''d1''" 5 True 6 1 1]
    by simp
qed

text \<open>
  C3, as stated, fails: two drivers at the same distance are answered in the order in which
  they entered the store, here \<open>d2\<close> before \<open>d1\<close>, not in the order of their ids.
\<close>

theorem nearby_ties_in_insertion_order:
  "fetch tracker_two 2 (post_nearby 1 1 10)
     = (Response 200 (SuccessNearby [(entry_d2, 0), (entry_d1, 0)]), tracker_two)
   \<and> \<not> nearby_order_spec [(entry_d2, 0), (entry_d1, 0)]"
proof -
  have "\<not> (''d2'' \<le> ''d1'')" by simp
  then have "\<not> nearby_order_spec [(entry_d2, 0), (entry_d1, 0)]"
    by (simp add: nearby_order_spec_def entry_d1_def entry_d2_def)
  moreover have "fetch tracker_two 2 (post_nearby 1 1 10)
     = (Response 200 (SuccessNearby [(entry_d2, 0), (entry_d1, 0)]), tracker_two)"
    by (simp add: tracker_two_eq tracker_defs entry_d1_def entry_d2_def)
  ultimately show ?thesis by simp
qed

text \<open>
  C3, amended. The answer of \<^verbatim>\<open>Nearby\<close> is sorted ascending by distance, and entries at
  the same distance are in the order in which the store, as the query leaves it, enumerates
  them: restricted to any one distance \<open>k\<close>, the answer is the list of the store's entries
  at that distance within the radius, in the store's order. This need not be the order of
  the first reports: a driver who was removed and reports again is enumerated last.
\<close>

theorem handleNearby_sorted_stable:
  assumes "body_lat b = Some qlat" and "body_lng b = Some qlng"
  shows "\<exists>es. fst (handleNearby s now b) = Response 200 (SuccessNearby es)
          \<and> sorted (map snd es)
          \<and> (\<forall>k. filter (\<lambda>e. snd e = k) es
                 = filter (\<lambda>e. snd e = k \<and> k \<le> (case body_radius_km b of None \<Rightarrow> 10 | Some r \<Rightarrow> r))
                     (map (\<lambda>loc. (loc, haversineDistance qlat qlng (loc_lat loc) (loc_lng loc)))
                        (map snd (locations (snd (handleNearby s now b))))))"
proof -
  obtain locs pruned
    where pl: "prune_loop (now - 5 * 60 * 1000) (locations s) (locations s, False) = (locs, pruned)"
    by (cases "prune_loop (now - 5 * 60 * 1000) (locations s) (locations s, False)")
  let ?r = "case body_radius_km b of None \<Rightarrow> 10 | Some r \<Rightarrow> r"
  let ?cands = "map (\<lambda>loc. (loc, haversineDistance qlat qlng (loc_lat loc) (loc_lng loc))) (map snd locs)"
  let ?es = "sort_key snd (filter (\<lambda>e. snd e \<le> ?r) ?cands)"
  have res: "fst (handleNearby s now b) = Response 200 (SuccessNearby ?es)"
    and st: "locations (snd (handleNearby s now b)) = locs"
    using assms pl by (simp_all add: handleNearby_def Let_def persist_def)
  have "filter (\<lambda>e. snd e = k) ?es = filter (\<lambda>e. snd e = k \<and> k \<le> ?r) ?cands" for k
  proof -
    have "filter (\<lambda>e. snd e = k) ?es = filter (\<lambda>e. snd e = k) (filter (\<lambda>e. snd e \<le> ?r) ?cands)"
      by (rule sort_key_stable)
    also have "\<dots> = filter (\<lambda>e. snd e = k \<and> k \<le> ?r) ?cands"
      unfolding filter_filter by (rule filter_cong) auto
    finally show ?thesis .
  qed
  moreover have "sorted (map snd ?es)" by (rule sorted_sort_key)
  ultimately show ?thesis unfolding st using res by blast
qed

theorem handleNearby_sorted_stable_witness:
  "body_lat (req_body (post_nearby 1 1 10)) = Some 1
   \<and> body_lng (req_body (post_nearby 1 1 10)) = Some 1
   \<and> fst (handleNearby tracker_two 2 (req_body (post_nearby 1 1 10)))
       = Response 200 (SuccessNearby [(entry_d2, 0), (entry_d1, 0)])
   \<and> sorted (map snd [(entry_d2, 0 :: real), (entry_d1, 0)])
   \<and> filter (\<lambda>e. snd e = 0) [(entry_d2, 0 :: real), (entry_d1, 0)]
       = filter (\<lambda>e. snd e = 0 \<and> (0 :: real) \<le> 10)
           (map (\<lambda>loc. (loc, haversineDistance 1 1 (loc_lat loc) (loc_lng loc)))
              (map snd (locations tracker_two)))"
proof -
  let ?b = "req_body (post_nearby 1 1 10)"
  have a: "body_lat ?b = Some 1" and b: "body_lng ?b = Some 1"
    and r: "body_radius_km ?b = Some 10"
    by (simp_all add: post_nearby_def)
  have run: "handleNearby tracker_two 2 ?b
               = (Response 200 (SuccessNearby [(entry_d2, 0), (entry_d1, 0)]), tracker_two)"
    by (simp add: tracker_two_eq tracker_defs entry_d1_def entry_d2_def)
  from handleNearby_sorted_stable [OF a b, of tracker_two 2]
  obtain es where es: "fst (handleNearby tracker_two 2 ?b) = Response 200 (SuccessNearby es)"
    "sorted (map snd es)"
    "\<forall>k. filter (\<lambda>e. snd e = k) es
           = filter (\<lambda>e. snd e = k \<and> k \<le> (case body_radius_km ?b of None \<Rightarrow> 10 | Some r \<Rightarrow> r))
               (map (\<lambda>loc. (loc, haversineDistance 1 1 (loc_lat loc) (loc_lng loc)))
                  (map snd (locations (snd (handleNearby tracker_two 2 ?b)))))"
    by blast
  have eq: "es = [(entry_d2, 0), (entry_d1, 0)]"
    using es(1) run by simp
  have st: "snd (handleNearby tracker_two 2 ?b) = tracker_two"
    using run by simp
  have rad: "(case body_radius_km ?b of None \<Rightarrow> 10 | Some r \<Rightarrow> r) = 10"
    using r by simp
  from es(2) have 1: "sorted (map snd [(entry_d2, 0 :: real), (entry_d1, 0)])"
    unfolding eq .
  from es(3) have 2: "filter (\<lambda>e. snd e = 0) [(entry_d2, 0 :: real), (entry_d1, 0)]
       = filter (\<lambda>e. snd e = 0 \<and> (0 :: real) \<le> 10)
           (map (\<lambda>loc. (loc, haversineDistance 1 1 (loc_lat loc) (loc_lng loc)))
              (map snd (locations tracker_two)))"
    unfolding eq st rad by (rule spec)
  from a b run 1 2 show ?thesis by (simp only: fst_conv simp_thms)
qed

text \<open>
  C4, as stated, fails: dispatch does not ask the location store. Driver \<open>d1\<close> has been
  evicted from it as stale, a lookup there answers 404, and yet \<open>d1\<close> is ranked and
  assigned, from the position kept in its availability record.
\<close>

theorem dispatch_ranks_evicted_driver:
  "fst (fetch (sys_tracker sys_evicted) 400001 (get_location ''d1''))
       = Response 404 (ErrorBody ''Driver not found'')
   \<and> map (av_driver_id \<circ> fst) (rank_drivers order_o1 (findAvailableDrivers (sys_db sys_evicted)))
       = [''d1'']
   \<and> fst (triggerDispatch (sys_db sys_evicted) 400001 ''o1'')
       = Inr \<lparr>assigned = True, res_driver_id = Some ''d1''\<rparr>"
  by (simp add: sys_evicted_eq tracker_defs triggerDispatch_def dispatchOrder_def
      findAvailableDrivers_def select_available_def active_driver_ids_def rank_drivers_def
      updateStatus_def findById_def order_o1_def)

text \<open>
  C4, amended. During dispatch the positions of the candidates are those of their
  availability records (table \<^verbatim>\<open>driver_status\<close>), from which the distances are computed;
  a driver whose record lacks a coordinate, or who has no record, is not ranked. The location
  store is no argument of the ranking, so staleness there excludes nobody.
\<close>

theorem ranking_reads_availability_records:
  "(\<forall>c \<in> set (rank_drivers order (findAvailableDrivers db)).
      \<exists>ds \<in> set (driver_status db).
        ds_driver_id ds = av_driver_id (fst c) \<and> is_available ds
        \<and> current_lat ds = Some (av_current_lat (fst c))
        \<and> current_lng ds = Some (av_current_lng (fst c))
        \<and> snd c = haversineDistance (pickup_lat order) (pickup_lng order)
                     (av_current_lat (fst c)) (av_current_lng (fst c)))
   \<and> (primary_keys db \<longrightarrow>
        (\<forall>ds \<in> set (driver_status db).
           current_lat ds = None \<or> current_lng ds = None \<longrightarrow>
           ds_driver_id ds \<notin> (av_driver_id \<circ> fst) ` set (rank_drivers order (findAvailableDrivers db))))
   \<and> (\<forall>d. d \<notin> ds_driver_id ` set (driver_status db) \<longrightarrow>
           d \<notin> (av_driver_id \<circ> fst) ` set (rank_drivers order (findAvailableDrivers db)))"
proof (intro conjI)
  show "\<forall>c \<in> set (rank_drivers order (findAvailableDrivers db)).
      \<exists>ds \<in> set (driver_status db).
        ds_driver_id ds = av_driver_id (fst c) \<and> is_available ds
        \<and> current_lat ds = Some (av_current_lat (fst c))
        \<and> current_lng ds = Some (av_current_lng (fst c))
        \<and> snd c = haversineDistance (pickup_lat order) (pickup_lng order)
                     (av_current_lat (fst c)) (av_current_lng (fst c))"
  proof
    fix c assume "c \<in> set (rank_drivers order (findAvailableDrivers db))"
    then obtain a where a: "a \<in> set (findAvailableDrivers db)"
      and c: "c = (a, haversineDistance (pickup_lat order) (pickup_lng order) (av_current_lat a) (av_current_lng a))"
      by (auto simp: set_rank_drivers)
    from a obtain ds where "ds \<in> set (driver_status db)" "is_available ds"
      "current_lat ds = Some (av_current_lat a)" "current_lng ds = Some (av_current_lng a)"
      "av_driver_id a = ds_driver_id ds"
      unfolding available_iff by blast
    then show "\<exists>ds \<in> set (driver_status db).
        ds_driver_id ds = av_driver_id (fst c) \<and> is_available ds
        \<and> current_lat ds = Some (av_current_lat (fst c))
        \<and> current_lng ds = Some (av_current_lng (fst c))
        \<and> snd c = haversineDistance (pickup_lat order) (pickup_lng order)
                     (av_current_lat (fst c)) (av_current_lng (fst c))"
      unfolding c by (intro bexI [of _ ds]) simp_all
  qed
next
  show "primary_keys db \<longrightarrow>
        (\<forall>ds \<in> set (driver_status db).
           current_lat ds = None \<or> current_lng ds = None \<longrightarrow>
           ds_driver_id ds \<notin> (av_driver_id \<circ> fst) ` set (rank_drivers order (findAvailableDrivers db)))"
    unfolding ranked_ids primary_keys_def
    using no_position_not_available [of db] by blast
next
  show "\<forall>d. d \<notin> ds_driver_id ` set (driver_status db) \<longrightarrow>
           d \<notin> (av_driver_id \<circ> fst) ` set (rank_drivers order (findAvailableDrivers db))"
    unfolding ranked_ids using never_reported_not_available [of _ db] by blast
qed

theorem ranking_reads_availability_records_witness:
  "primary_keys db_toggled
   \<and> \<lparr>ds_driver_id = ''d1'', is_available = True, current_lat = None, current_lng = None,
       ds_updated_at = 5\<rparr> \<in> set (driver_status db_toggled)
   \<and> ''d1'' \<notin> (av_driver_id \<circ> fst) ` set (rank_drivers order_o1 (findAvailableDrivers db_toggled))
   \<and> ''d9'' \<notin> ds_driver_id ` set (driver_status db_toggled)
   \<and> ''d9'' \<notin> (av_driver_id \<circ> fst) ` set (rank_drivers order_o1 (findAvailableDrivers db_toggled))
   \<and> (\<lparr>av_driver_id = ''d1'', av_current_lat = 1, av_current_lng = 1\<rparr>, 0)
       \<in> set (rank_drivers order_o1 (findAvailableDrivers (sys_db sys_evicted)))
   \<and> (\<exists>ds \<in> set (driver_status (sys_db sys_evicted)).
         ds_driver_id ds = ''d1'' \<and> is_available ds
         \<and> current_lat ds = Some 1 \<and> current_lng ds = Some 1)"
proof -
  let ?row = "\<lparr>ds_driver_id = ''d1'', is_available = True, current_lat = None, current_lng = None,
       ds_updated_at = 5\<rparr>"
  let ?c = "(\<lparr>av_driver_id = ''d1'', av_current_lat = 1, av_current_lng = 1\<rparr>, 0 :: real)"
  have pk: "primary_keys db_toggled"
    and row: "?row \<in> set (driver_status db_toggled)"
    and d9: "''d9'' \<notin> ds_driver_id ` set (driver_status db_toggled)"
    by (simp_all add: db_toggled_eq primary_keys_def)
  have c: "?c \<in> set (rank_drivers order_o1 (findAvailableDrivers (sys_db sys_evicted)))"
    by (simp add: sys_evicted_eq rank_drivers_def findAvailableDrivers_def select_available_def
        active_driver_ids_def order_o1_def)
  note T1 = ranking_reads_availability_records [of order_o1 db_toggled]
  note T2 = ranking_reads_availability_records [of order_o1 "sys_db sys_evicted"]
  have null: "current_lat ?row = None \<or> current_lng ?row = None" by simp
  from T1 [THEN conjunct2, THEN conjunct1, rule_format, OF pk row null]
  have 1: "''d1'' \<notin> (av_driver_id \<circ> fst) ` set (rank_drivers order_o1 (findAvailableDrivers db_toggled))"
    by simp
  from T1 [THEN conjunct2, THEN conjunct2, rule_format, OF d9]
  have 2: "''d9'' \<notin> (av_driver_id \<circ> fst) ` set (rank_drivers order_o1 (findAvailableDrivers db_toggled))" .
  from T2 [THEN conjunct1, rule_format, OF c]
  have 3: "\<exists>ds \<in> set (driver_status (sys_db sys_evicted)).
         ds_driver_id ds = ''d1'' \<and> is_available ds
         \<and> current_lat ds = Some 1 \<and> current_lng ds = Some 1"
    by simp blast
  from pk row 1 d9 2 c 3 show ?thesis by (intro conjI)
qed

text \<open>
  C7. A \<^verbatim>\<open>Nearby\<close> query with a centre, at time \<open>now\<close>, over a store holding an entry for
  driver \<open>d\<close> whose timestamp is more than five minutes before \<open>now\<close>: the entry is not in
  the answer, \<open>d\<close> is no longer in the live mapping nor in the persisted copy, which this
  query rewrites, and a later lookup of \<open>d\<close> answers 404.
\<close>

theorem stale_entries_evicted:
  assumes ok: "store_ok (locations (ensureLoaded s))"
    and mem: "(d, loc) \<in> set (locations (ensureLoaded s))"
    and stale: "now - loc_updated_at loc > 5 * 60 * 1000"
    and route: "req_method request = ''POST''" "segment0 (req_segments request) = ''nearby''"
    and center: "body_lat (req_body request) = Some qlat" "body_lng (req_body request) = Some qlng"
  shows "\<exists>es s'. fetch s now request = (Response 200 (SuccessNearby es), s')
           \<and> loc \<notin> fst ` set es
           \<and> map_of (locations s') d = None
           \<and> (\<exists>stored. storage s' = Some stored \<and> map_of stored d = None)
           \<and> (\<exists>p. fst (fetch s' now' (get_location d)) = Response 404 p)"
proof -
  let ?thr = "now - 5 * 60 * 1000"
  let ?s = "ensureLoaded s"
  let ?live = "filter (fresh_entry ?thr) (locations ?s)"
  let ?es = "sort_key snd
        (filter (\<lambda>e. snd e \<le> (case body_radius_km (req_body request) of None \<Rightarrow> 10 | Some r \<Rightarrow> r))
           (map (\<lambda>loc. (loc, haversineDistance qlat qlng (loc_lat loc) (loc_lng loc)))
              (map snd ?live)))"
  let ?s' = "?s\<lparr>locations := ?live, storage := Some ?live\<rparr>"
  have st: "\<not> fresh_entry ?thr (d, loc)"
    using stale by (simp add: fresh_entry_def)
  with mem have ex: "\<exists>x \<in> set (locations ?s). \<not> fresh_entry ?thr x" by blast
  have run: "fetch s now request = (Response 200 (SuccessNearby ?es), ?s')"
    using ex by (simp only: fetch_nearby [OF route] handleNearby_eq [OF ok center] if_True)
  have gone: "map_of ?live d = None"
    using ok mem st by (rule map_of_filter_stale)
  have "loc \<notin> fst ` set ?es"
  proof
    assume "loc \<in> fst ` set ?es"
    then obtain k where "(k, loc) \<in> set ?live" by auto
    then have "fresh_entry ?thr (k, loc)" by simp
    with st show False by (simp add: fresh_entry_def)
  qed
  moreover have "map_of (locations ?s') d = None" using gone by simp
  moreover have "\<exists>stored. storage ?s' = Some stored \<and> map_of stored d = None" using gone by simp
  moreover have "\<exists>p. fst (fetch ?s' now' (get_location d)) = Response 404 p"
    using gone by (simp add: fetch_get handleGetLocation_def)
  ultimately show ?thesis using run by blast
qed

theorem stale_entries_evicted_witness:
  "store_ok (locations (ensureLoaded tracker_d1))
   \<and> (''d1'', entry_d1) \<in> set (locations (ensureLoaded tracker_d1))
   \<and> 400000 - loc_updated_at entry_d1 > 5 * 60 * 1000
   \<and> req_method (post_nearby 1 1 10) = ''POST''
   \<and> segment0 (req_segments (post_nearby 1 1 10)) = ''nearby''
   \<and> body_lat (req_body (post_nearby 1 1 10)) = Some 1
   \<and> body_lng (req_body (post_nearby 1 1 10)) = Some 1
   \<and> fetch tracker_d1 400000 (post_nearby 1 1 10)
       = (Response 200 (SuccessNearby []), \<lparr>locations = [], loaded = True, storage = Some []\<rparr>)
   \<and> (\<exists>p. fst (fetch \<lparr>locations = [], loaded = True, storage = Some []\<rparr> 400001
                  (get_location ''d1'')) = Response 404 p)"
proof -
  have ok: "store_ok (locations (ensureLoaded tracker_d1))"
    and mem: "(''d1'', entry_d1) \<in> set (locations (ensureLoaded tracker_d1))"
    by (simp_all add: tracker_d1_eq store_ok_def)
  have stale: "400000 - loc_updated_at entry_d1 > 5 * 60 * 1000"
    by (simp add: entry_d1_def)
  have route: "req_method (post_nearby 1 1 10) = ''POST''"
    "segment0 (req_segments (post_nearby 1 1 10)) = ''nearby''"
    and center: "body_lat (req_body (post_nearby 1 1 10)) = Some 1"
    "body_lng (req_body (post_nearby 1 1 10)) = Some 1"
    by (simp_all add: post_nearby_def segment0_def)
  have run: "fetch tracker_d1 400000 (post_nearby 1 1 10)
       = (Response 200 (SuccessNearby []), \<lparr>locations = [], loaded = True, storage = Some []\<rparr>)"
    by (simp add: tracker_d1_eq tracker_defs entry_d1_def)
  from stale_entries_evicted [OF ok mem stale route center, of 400001]
  have "\<exists>p. fst (fetch \<lparr>locations = [], loaded = True, storage = Some []\<rparr> 400001
                  (get_location ''d1'')) = Response 404 p"
    unfolding run by simp
  then show ?thesis using ok mem stale route center run by simp
qed






end
